theory Spec2Isabelle
  imports Complex_Main
begin

section \<open>Strings as the scripts use them\<close>

text \<open>
  Strings are lists of characters. Numbers of the source are IEEE doubles; they are
  modelled by exact reals, so rounding error, overflow and the special values of
  doubles are outside the scoring model (the parser below keeps NaN and the
  infinities, because its default chain branches on them).
  \<open>toLowerCase\<close> maps the letters A-Z to a-z and leaves every other character alone.
\<close>

definition isUpper :: "char \<Rightarrow> bool" where
  "isUpper c = (65 \<le> (of_char c :: nat) \<and> (of_char c :: nat) \<le> 90)"

definition lowerChar :: "char \<Rightarrow> char" where
  "lowerChar c =
     (if isUpper c
      then (case c of Char b0 b1 b2 b3 b4 b5 b6 b7 \<Rightarrow> Char b0 b1 b2 b3 b4 True b6 b7)
      else c)"

definition toLowerCase :: "string \<Rightarrow> string" where
  "toLowerCase s = map lowerChar s"

text \<open>\<open>s.startsWith(t)\<close> and \<open>s.includes(t)\<close>.\<close>

fun startsWith :: "string \<Rightarrow> string \<Rightarrow> bool" where
  "startsWith s [] = True"
| "startsWith [] (d # t) = False"
| "startsWith (c # s) (d # t) = (c = d \<and> startsWith s t)"

fun includesStr :: "string \<Rightarrow> string \<Rightarrow> bool" where
  "includesStr [] t = (t = [])"
| "includesStr (c # s) t = (startsWith (c # s) t \<or> includesStr s t)"

section \<open>PersonnelData as the scoring functions read it\<close>

text \<open>
  The interface \<open>PersonnelData\<close>. The four categorical fields are read through
  \<open>?.\<close> in the source, so they are optional here (\<open>None\<close> is undefined).
  Field names carry the prefix \<open>p_\<close> because the planning records below have
  fields of the same names.
\<close>

record PersonnelData =
  p_id :: string
  p_name :: string
  p_rank :: string
  p_branch :: string
  p_specialization :: string
  p_experience :: real
  p_age :: real
  p_medicalStatus :: "string option"
  p_trainingScore :: real
  p_missionReadiness :: "string option"
  p_lastDeployment :: string
  p_skillLevel :: "string option"
  p_leadershipPotential :: "string option"

text \<open>\<open>x?.toLowerCase()\<close>\<close>

definition lowerOpt :: "string option \<Rightarrow> string option" where
  "lowerOpt x = map_option toLowerCase x"

text \<open>\<open>Math.round\<close>: the integer \<open>floor (x + 0.5)\<close>.\<close>

definition Math_round :: "real \<Rightarrow> int" where
  "Math_round x = \<lfloor>x + 1 / 2\<rfloor>"

section \<open>Scoring engine\<close>

definition medicalPoints :: "string option \<Rightarrow> real" where
  "medicalPoints ms =
     (if lowerOpt ms = Some ''fit'' then 40
      else if lowerOpt ms = Some ''limited duty'' then 25
      else if lowerOpt ms = Some ''under review'' then 10
      else 20)"

definition skillPoints :: "string option \<Rightarrow> real" where
  "skillPoints sl =
     (if lowerOpt sl = Some ''expert'' then 10
      else if lowerOpt sl = Some ''advanced'' then 8
      else if lowerOpt sl = Some ''intermediate'' then 6
      else if lowerOpt sl = Some ''beginner'' then 4
      else 5)"

definition calculateReadinessScore :: "PersonnelData \<Rightarrow> int" where
  "calculateReadinessScore personnel =
     (let score = 0;
          score = score + medicalPoints (p_medicalStatus personnel);
          score = score + (p_trainingScore personnel / 100) * 30;
          expScore = min (p_experience personnel / 20) 1 * 20;
          score = score + expScore;
          score = score + skillPoints (p_skillLevel personnel)
      in Math_round score)"

datatype risk = Low | Medium | High

definition riskScore :: "PersonnelData \<Rightarrow> int" where
  "riskScore personnel =
     (let r = 0;
          r = (if p_age personnel > 45 then r + 2
               else if p_age personnel > 40 then r + 1 else r);
          r = (if p_experience personnel > 15 then r + 2
               else if p_experience personnel > 10 then r + 1 else r);
          r = (if lowerOpt (p_medicalStatus personnel) \<noteq> Some ''fit'' then r + 1 else r);
          r = (if p_trainingScore personnel < 70 then r + 1 else r);
          r = (if lowerOpt (p_missionReadiness personnel) = Some ''not ready'' then r + 1 else r)
      in r)"

definition predictAttritionRisk :: "PersonnelData \<Rightarrow> risk" where
  "predictAttritionRisk personnel =
     (if riskScore personnel \<ge> 4 then High
      else if riskScore personnel \<ge> 2 then Medium
      else Low)"

text \<open>
  \<open>generateTrainingRecommendations\<close> reads the clock and parses the deployment date.
  Both are taken from outside: \<open>now\<close> is the current time in milliseconds since the
  epoch, and \<open>dateParse\<close> is the time value \<open>new Date(s).getTime()\<close> of a date
  string, \<open>None\<close> for an invalid date (NaN in the source, which no comparison
  accepts).
\<close>

definition daysSinceDeployment :: "(string \<Rightarrow> int option) \<Rightarrow> int \<Rightarrow> PersonnelData \<Rightarrow> int option" where
  "daysSinceDeployment dateParse now personnel =
     (case dateParse (p_lastDeployment personnel) of
        None \<Rightarrow> None
      | Some t \<Rightarrow> Some ((now - t) div (1000 * 60 * 60 * 24)))"

definition overdue :: "int option \<Rightarrow> bool" where
  "overdue d = (case d of None \<Rightarrow> False | Some n \<Rightarrow> n > 365)"

definition generateTrainingRecommendations ::
  "(string \<Rightarrow> int option) \<Rightarrow> int \<Rightarrow> PersonnelData \<Rightarrow> string list" where
  "generateTrainingRecommendations dateParse now personnel =
     (let recommendations = [];
          recommendations =
            (if p_trainingScore personnel < 70
             then recommendations @ [''Core Skills Refresher Training''] else recommendations);
          recommendations =
            (if lowerOpt (p_skillLevel personnel) = Some ''beginner''
                \<or> lowerOpt (p_skillLevel personnel) = Some ''intermediate''
             then recommendations @ [''Advanced Technical Training''] else recommendations);
          recommendations =
            (if lowerOpt (p_leadershipPotential personnel) = Some ''high''
                \<and> p_experience personnel > 5
             then recommendations @ [''Leadership Development Program''] else recommendations);
          recommendations =
            (if lowerOpt (p_missionReadiness personnel) = Some ''training''
             then recommendations @ [''Mission Readiness Assessment''] else recommendations);
          recommendations =
            (if overdue (daysSinceDeployment dateParse now personnel)
             then recommendations @ [''Deployment Readiness Training''] else recommendations);
          recommendations =
            (if length recommendations = 0
             then recommendations @ [''Maintenance Training''] else recommendations)
      in recommendations)"

section \<open>The scoring rules as the specification words them\<close>

text \<open>
  Case-insensitive equality of a field with a name of the specification: both sides are
  lower-cased and compared. An undefined field equals no name.
\<close>

definition ciEq :: "string option \<Rightarrow> string \<Rightarrow> bool" where
  "ciEq x name = (case x of None \<Rightarrow> False | Some s \<Rightarrow> toLowerCase s = toLowerCase name)"




section \<open>Facts about lower-casing\<close>

lemma lower_names:
  "toLowerCase ''Fit'' = ''fit''"
  "toLowerCase ''Limited Duty'' = ''limited duty''"
  "toLowerCase ''Under Review'' = ''under review''"
  "toLowerCase ''Expert'' = ''expert''"
  "toLowerCase ''Advanced'' = ''advanced''"
  "toLowerCase ''Intermediate'' = ''intermediate''"
  "toLowerCase ''Beginner'' = ''beginner''"
  by (simp_all add: toLowerCase_def lowerChar_def isUpper_def)

lemma ciEq_lowerOpt: "ciEq x name = (lowerOpt x = Some (toLowerCase name))"
  by (cases x) (auto simp: ciEq_def lowerOpt_def)



section \<open>Readiness score\<close>


section \<open>Attrition risk\<close>

text \<open>
  The risk score with the bands as the claim words them: the age band 41-45 and the
  experience band 11-15, both ends included.
\<close>

definition tier :: "int \<Rightarrow> risk" where
  "tier n = (if n \<ge> 4 then High else if n \<ge> 2 then Medium else Low)"

definition claimed_riskScore :: "PersonnelData \<Rightarrow> int" where
  "claimed_riskScore p =
     (if p_age p > 45 then 2 else if 41 \<le> p_age p \<and> p_age p \<le> 45 then 1 else 0)
     + (if p_experience p > 15 then 2
        else if 11 \<le> p_experience p \<and> p_experience p \<le> 15 then 1 else 0)
     + (if ciEq (p_medicalStatus p) ''fit'' then 0 else 1)
     + (if p_trainingScore p < 70 then 1 else 0)
     + (if ciEq (p_missionReadiness p) ''not ready'' then 1 else 0)"

text \<open>The same sum with the bands the comparisons of the source give.\<close>

definition banded_riskScore :: "PersonnelData \<Rightarrow> int" where
  "banded_riskScore p =
     (if p_age p > 45 then 2 else if 40 < p_age p \<and> p_age p \<le> 45 then 1 else 0)
     + (if p_experience p > 15 then 2
        else if 10 < p_experience p \<and> p_experience p \<le> 15 then 1 else 0)
     + (if ciEq (p_medicalStatus p) ''fit'' then 0 else 1)
     + (if p_trainingScore p < 70 then 1 else 0)
     + (if ciEq (p_missionReadiness p) ''not ready'' then 1 else 0)"

definition halfYears :: PersonnelData where
  "halfYears =
     \<lparr>p_id = ''IAF0001'', p_name = ''A'', p_rank = ''Officer'', p_branch = ''Air Force'',
      p_specialization = ''Pilot'', p_experience = 21 / 2, p_age = 81 / 2,
      p_medicalStatus = Some ''Fit'', p_trainingScore = 80,
      p_missionReadiness = Some ''Ready'', p_lastDeployment = ''2024-01-01'',
      p_skillLevel = Some ''Expert'', p_leadershipPotential = Some ''Low''\<rparr>"

definition wholeYears :: PersonnelData where
  "wholeYears = halfYears\<lparr>p_experience := 11, p_age := 41\<rparr>"

lemma lower_fixed:
  "toLowerCase ''fit'' = ''fit''"
  "toLowerCase ''not ready'' = ''not ready''"
  "toLowerCase ''Ready'' = ''ready''"
  "toLowerCase ''High'' = ''high''"
  "toLowerCase ''Low'' = ''low''"
  "toLowerCase ''Training'' = ''training''"
  by (simp_all add: toLowerCase_def lowerChar_def isUpper_def)

lemma riskScore_banded: "riskScore p = banded_riskScore p"
  by (simp add: riskScore_def banded_riskScore_def Let_def ciEq_lowerOpt lower_fixed)

lemma whole_gt_iff:
  assumes "x \<in> \<int>"
  shows "(real_of_int k < x) = (real_of_int (k + 1) \<le> x)"
proof -
  from assms obtain j where j: "x = real_of_int j"
    by (auto elim: Ints_cases)
  show ?thesis
    unfolding j of_int_less_iff of_int_le_iff by auto
qed

lemma banded_claimed_whole:
  assumes "p_age p \<in> \<int>" and "p_experience p \<in> \<int>"
  shows "banded_riskScore p = claimed_riskScore p"
proof -
  have a: "(40 < p_age p) = (41 \<le> p_age p)"
    using whole_gt_iff [OF assms(1), of 40] by simp
  have e: "(10 < p_experience p) = (11 \<le> p_experience p)"
    using whole_gt_iff [OF assms(2), of 10] by simp
  show ?thesis
    by (simp add: banded_riskScore_def claimed_riskScore_def a e)
qed

text \<open>
  C2, as stated, at a record with age 40.5 and 10.5 years of experience, medically
  fit, training score 80 and mission ready: the claim's bands 41-45 and 11-15 give the
  score 0 and the tier Low, the source adds 1 for each of the two and returns Medium.
\<close>

theorem attrition_bands_counterexample:
  "claimed_riskScore halfYears = 0 \<and> tier (claimed_riskScore halfYears) = Low
   \<and> riskScore halfYears = 2 \<and> predictAttritionRisk halfYears = Medium"
  by (simp add: claimed_riskScore_def riskScore_def predictAttritionRisk_def tier_def
      halfYears_def ciEq_def lowerOpt_def Let_def lower_names lower_fixed)

text \<open>
  C2, amended. The risk score is the sum of: 2 if age > 45, else 1 if 40 < age <= 45,
  else 0; 2 if experience > 15, else 1 if 10 < experience <= 15, else 0; 1 if the
  medical status is not fit; 1 if the training score is below 70; 1 if the mission
  readiness is not ready (both compared without regard to case). The result is High
  for a score of at least 4, Medium for at least 2, Low otherwise. For whole numbers
  of years the two bands are the claim's 41-45 and 11-15.
\<close>

theorem attrition_risk_bands:
  "riskScore p = banded_riskScore p
   \<and> predictAttritionRisk p = tier (banded_riskScore p)
   \<and> (p_age p \<in> \<int> \<and> p_experience p \<in> \<int> \<longrightarrow>
        riskScore p = claimed_riskScore p
        \<and> predictAttritionRisk p = tier (claimed_riskScore p))"
proof -
  have t: "predictAttritionRisk p = tier (riskScore p)"
    by (simp add: predictAttritionRisk_def tier_def)
  show ?thesis
    using banded_claimed_whole [of p] by (simp add: t riskScore_banded)
qed

theorem attrition_risk_bands_witness:
  "p_age wholeYears \<in> \<int> \<and> p_experience wholeYears \<in> \<int>
   \<and> riskScore wholeYears = 2 \<and> claimed_riskScore wholeYears = 2
   \<and> predictAttritionRisk wholeYears = Medium"
proof -
  have w: "p_age wholeYears \<in> \<int> \<and> p_experience wholeYears \<in> \<int>"
    by (simp add: wholeYears_def halfYears_def)
  have c: "claimed_riskScore wholeYears = 2"
    by (simp add: claimed_riskScore_def wholeYears_def halfYears_def ciEq_def
        lower_names lower_fixed)
  from attrition_risk_bands [of wholeYears] w c show ?thesis
    by (simp add: tier_def)
qed

section \<open>Training recommendations\<close>

definition noRuleFires :: "(string \<Rightarrow> int option) \<Rightarrow> int \<Rightarrow> PersonnelData \<Rightarrow> bool" where
  "noRuleFires dateParse now p =
     (p_trainingScore p \<ge> 70
      \<and> \<not> ciEq (p_skillLevel p) ''Beginner''
      \<and> \<not> ciEq (p_skillLevel p) ''Intermediate''
      \<and> \<not> (ciEq (p_leadershipPotential p) ''High'' \<and> p_experience p > 5)
      \<and> \<not> ciEq (p_missionReadiness p) ''Training''
      \<and> (case daysSinceDeployment dateParse now p of None \<Rightarrow> True | Some d \<Rightarrow> d \<le> 365))"

text \<open>A clock and a date parser for the examples: 1 March 2024, and one known date.\<close>

definition march2024 :: int where
  "march2024 = 1709251200000"

definition isoDates :: "string \<Rightarrow> int option" where
  "isoDates s = (if s = ''2024-01-01'' then Some 1704067200000 else None)"

text \<open>
  C8. For every record and every reference date, \<open>generateTrainingRecommendations\<close>
  returns a non-empty list; when none of the five rules fires (training score at least
  70, skill level neither Beginner nor Intermediate, not both leadership potential High
  and experience above 5, mission readiness not Training, no more than 365 days since
  the last deployment), the list is exactly Maintenance Training.
\<close>

theorem recommendations_nonempty_fallback:
  "generateTrainingRecommendations dateParse now p \<noteq> []
   \<and> (noRuleFires dateParse now p \<longrightarrow>
        generateTrainingRecommendations dateParse now p = [''Maintenance Training''])"
proof
  show "generateTrainingRecommendations dateParse now p \<noteq> []"
    by (simp add: generateTrainingRecommendations_def Let_def)
next
  show "noRuleFires dateParse now p \<longrightarrow>
        generateTrainingRecommendations dateParse now p = [''Maintenance Training'']"
    by (auto simp: noRuleFires_def generateTrainingRecommendations_def Let_def ciEq_lowerOpt
        lower_names lower_fixed overdue_def split: option.splits)
qed

theorem recommendations_nonempty_fallback_witness:
  "noRuleFires isoDates march2024 halfYears
   \<and> generateTrainingRecommendations isoDates march2024 halfYears = [''Maintenance Training'']"
proof -
  have n: "noRuleFires isoDates march2024 halfYears"
    by (simp add: noRuleFires_def halfYears_def ciEq_def lower_names lower_fixed
        daysSinceDeployment_def isoDates_def march2024_def)
  with recommendations_nonempty_fallback [of isoDates march2024 halfYears] show ?thesis
    by simp
qed

section \<open>Values of the untyped row objects\<close>

text \<open>
  A row object of the parser holds strings and numbers under string keys; a key that is
  absent reads as undefined (\<open>None\<close>). A number is a finite value, NaN or an
  infinity.
\<close>

datatype jsnum = Fin real | NaN | PosInfinity | NegInfinity

datatype jsval = JStr string | JNum jsnum

type_synonym jsobj = "string \<Rightarrow> jsval option"

text \<open>
  Truthiness, and \<open>a || b\<close>: undefined, the empty string, 0 and NaN are falsy. A
  chain \<open>a || b || c || d\<close> is its first truthy operand, or the last one.
\<close>

definition truthy :: "jsval option \<Rightarrow> bool" where
  "truthy v =
     (case v of
        None \<Rightarrow> False
      | Some (JStr s) \<Rightarrow> s \<noteq> []
      | Some (JNum n) \<Rightarrow> n \<noteq> NaN \<and> n \<noteq> Fin 0)"

definition orElse :: "jsval option \<Rightarrow> jsval option \<Rightarrow> jsval option" where
  "orElse a b = (if truthy a then a else b)"

definition firstTruthy :: "jsval option list \<Rightarrow> jsval option \<Rightarrow> jsval option" where
  "firstTruthy xs d = foldr orElse xs d"

text \<open>
  \<open>trim\<close> removes white space at both ends. Characters are bytes here, so the white
  space is the ASCII one: tab, line feed, vertical tab, form feed, carriage return and
  space.
\<close>

definition isSpace :: "char \<Rightarrow> bool" where
  "isSpace c = ((9 \<le> (of_char c :: nat) \<and> (of_char c :: nat) \<le> 13) \<or> (of_char c :: nat) = 32)"

definition trimStart :: "string \<Rightarrow> string" where
  "trimStart s = dropWhile isSpace s"

definition trim :: "string \<Rightarrow> string" where
  "trim s = rev (dropWhile isSpace (rev (dropWhile isSpace s)))"

text \<open>
  \<open>parseFloat\<close>: after leading white space, the longest prefix that is a decimal
  literal (an optional sign, then \<open>Infinity\<close> or digits with an optional fraction
  and an optional exponent); NaN when there is none. The value is the exact decimal
  value.
\<close>

definition isDigit :: "char \<Rightarrow> bool" where
  "isDigit c = (48 \<le> (of_char c :: nat) \<and> (of_char c :: nat) \<le> 57)"

definition digitsValue :: "string \<Rightarrow> nat" where
  "digitsValue ds = foldl (\<lambda>a c. 10 * a + (of_char c - 48)) 0 ds"

definition splitSign :: "string \<Rightarrow> int \<times> string" where
  "splitSign s =
     (case s of
        [] \<Rightarrow> (1, [])
      | c # r \<Rightarrow> if c = CHR ''-'' then (- 1, r) else if c = CHR ''+'' then (1, r) else (1, c # r))"

definition exponentPart :: "string \<Rightarrow> int" where
  "exponentPart s =
     (case s of
        [] \<Rightarrow> 0
      | c # r \<Rightarrow>
          if c = CHR ''e'' \<or> c = CHR ''E''
          then (case splitSign r of (sg, ds) \<Rightarrow> sg * int (digitsValue (takeWhile isDigit ds)))
          else 0)"

definition parseFloat :: "string \<Rightarrow> jsnum" where
  "parseFloat s =
     (case splitSign (trimStart s) of (sg, u) \<Rightarrow>
        if startsWith u ''Infinity'' then (if sg < 0 then NegInfinity else PosInfinity)
        else
          (let ip = takeWhile isDigit u;
               r1 = dropWhile isDigit u;
               fp = (case r1 of [] \<Rightarrow> [] | c # r \<Rightarrow> if c = CHR ''.'' then takeWhile isDigit r else []);
               r2 = (case r1 of [] \<Rightarrow> [] | c # r \<Rightarrow> if c = CHR ''.'' then dropWhile isDigit r else r1)
           in if ip = [] \<and> fp = [] then NaN
              else Fin (of_int sg * (real (digitsValue ip) + real (digitsValue fp) / 10 ^ length fp)
                        * 10 powi exponentPart r2)))"

section \<open>Record normalizer\<close>

text \<open>\<open>s.split(c)\<close> for a one-character separator: never empty, one more piece than separators.\<close>

fun splitOn :: "char \<Rightarrow> string \<Rightarrow> string list" where
  "splitOn c [] = [[]]"
| "splitOn c (x # xs) =
     (if x = c then [] # splitOn c xs
      else (case splitOn c xs of [] \<Rightarrow> [[x]] | w # ws \<Rightarrow> (x # w) # ws))"

definition removeQuotes :: "string \<Rightarrow> string" where
  "removeQuotes s = filter (\<lambda>c. c \<noteq> CHR 0x22) s"

text \<open>
  \<open>line.split(',').map(v => v.trim().replace(/"/g, ''))\<close>, used for the header line and
  for every data line.
\<close>

definition cells :: "string \<Rightarrow> string list" where
  "cells line = map (\<lambda>v. removeQuotes (trim v)) (splitOn (CHR '','') line)"

definition isLowerAlnum :: "char \<Rightarrow> bool" where
  "isLowerAlnum c =
     ((97 \<le> (of_char c :: nat) \<and> (of_char c :: nat) \<le> 122)
      \<or> (48 \<le> (of_char c :: nat) \<and> (of_char c :: nat) \<le> 57))"

definition normalizeHeader :: "string \<Rightarrow> string" where
  "normalizeHeader header =
     filter (\<lambda>c. \<not> isSpace c) (filter isLowerAlnum (toLowerCase header))"

definition numericKeys :: "string list" where
  "numericKeys = [''experience'', ''age'', ''trainingscore'', ''score'']"

text \<open>\<open>parseFloat(value) || 0\<close> and \<open>value || ''\<close>.\<close>

definition cellValue :: "string \<Rightarrow> string \<Rightarrow> jsval" where
  "cellValue normalizedHeader v =
     (if toLowerCase normalizedHeader \<in> set numericKeys
      then (if truthy (Some (JNum (parseFloat v))) then JNum (parseFloat v) else JNum (Fin 0))
      else (if truthy (Some (JStr v)) then JStr v else JStr []))"

text \<open>The \<open>forEach\<close> over the headers: a later column with the same normalized name overwrites.\<close>

fun rowRecord :: "jsobj \<Rightarrow> string list \<Rightarrow> string list \<Rightarrow> jsobj" where
  "rowRecord record (h # hs) (v # vs) =
     rowRecord (record(normalizeHeader h \<mapsto> cellValue (normalizeHeader h) v)) hs vs"
| "rowRecord record hs vs = record"

text \<open>
  The draws of \<open>Math.random()\<close> for one row, one per generated default; each lies in
  \<open>[0, 1)\<close>.
\<close>

record draws =
  d_experience :: real
  d_age :: real
  d_medicalStatus :: real
  d_trainingScore :: real
  d_missionReadiness :: real
  d_skillLevel :: real
  d_leadershipPotential :: real


text \<open>\<open>Math.floor(Math.random() * n) + k\<close>\<close>

definition randomInt :: "real \<Rightarrow> int \<Rightarrow> int \<Rightarrow> jsval option" where
  "randomInt r n k = Some (JNum (Fin (of_int (\<lfloor>r * of_int n\<rfloor> + k))))"

text \<open>\<open>xs[Math.floor(Math.random() * n)]\<close>; outside the array the read is undefined.\<close>

definition randomPick :: "string list \<Rightarrow> real \<Rightarrow> jsval option" where
  "randomPick xs r =
     (let k = \<lfloor>r * of_nat (length xs)\<rfloor>
      in if 0 \<le> k \<and> k < int (length xs) then Some (JStr (xs ! nat k)) else None)"

fun showNat :: "nat \<Rightarrow> string" where
  "showNat n =
     (if n < 10 then [''0123456789'' ! n]
      else showNat (n div 10) @ [''0123456789'' ! (n mod 10)])"

declare showNat.simps [simp del]

definition padStart :: "nat \<Rightarrow> char \<Rightarrow> string \<Rightarrow> string" where
  "padStart n c s = replicate (n - length s) c @ s"

text \<open>An object literal: the listed properties, a later one overriding an earlier one.\<close>

definition object :: "(string \<times> jsval option) list \<Rightarrow> jsobj" where
  "object kvs k = (case map_of (rev kvs) k of None \<Rightarrow> None | Some v \<Rightarrow> v)"

text \<open>
  The literal \<open>personnelRecord\<close>: thirteen defaulted properties, then the spread
  \<open>...record\<close>, whose properties override those of the same name.
\<close>

definition personnelRecord :: "nat \<Rightarrow> draws \<Rightarrow> jsobj \<Rightarrow> jsobj" where
  "personnelRecord i d record =
     object
       [(''id'', firstTruthy (map record [''id'', ''ID''])
           (Some (JStr (''IAF'' @ padStart 4 (CHR ''0'') (showNat i))))),
        (''name'', firstTruthy (map record [''name'', ''Name'', ''fullname'', ''FullName''])
           (Some (JStr (''Personnel '' @ showNat i)))),
        (''rank'', firstTruthy (map record [''rank'', ''Rank'', ''grade'', ''Grade''])
           (Some (JStr ''Officer''))),
        (''branch'', firstTruthy (map record [''branch'', ''Branch'', ''service'', ''Service''])
           (Some (JStr ''Air Force''))),
        (''specialization'',
           firstTruthy (map record [''specialization'', ''Specialization'', ''specialty'', ''Specialty''])
           (Some (JStr ''General''))),
        (''experience'',
           firstTruthy (map record [''experience'', ''Experience'', ''yearsofservice'', ''YearsOfService''])
           (randomInt (d_experience d) 20 1)),
        (''age'', firstTruthy (map record [''age'', ''Age'']) (randomInt (d_age d) 20 25)),
        (''medicalStatus'',
           firstTruthy (map record [''medicalstatus'', ''MedicalStatus'', ''medical'', ''Medical''])
           (randomPick [''Fit'', ''Under Review'', ''Limited Duty''] (d_medicalStatus d))),
        (''trainingScore'',
           firstTruthy (map record [''trainingscore'', ''TrainingScore'', ''score'', ''Score''])
           (randomInt (d_trainingScore d) 40 60)),
        (''missionReadiness'',
           firstTruthy (map record [''missionreadiness'', ''MissionReadiness'', ''readiness'', ''Readiness''])
           (randomPick [''Ready'', ''Training'', ''Not Ready''] (d_missionReadiness d))),
        (''lastDeployment'',
           firstTruthy (map record [''lastdeployment'', ''LastDeployment'', ''deployment'', ''Deployment''])
           (Some (JStr ''2024-01-01''))),
        (''skillLevel'',
           firstTruthy (map record [''skilllevel'', ''SkillLevel'', ''level'', ''Level''])
           (randomPick [''Expert'', ''Advanced'', ''Intermediate'', ''Beginner''] (d_skillLevel d))),
        (''leadershipPotential'',
           firstTruthy (map record [''leadershippotential'', ''LeadershipPotential'', ''leadership'', ''Leadership''])
           (randomPick [''High'', ''Medium'', ''Low''] (d_leadershipPotential d)))]
     ++ record"

text \<open>
  The three ways the promise is rejected: the check for two lines, an exception in the
  handler, and a failed read. Nothing in the handler raises on a text that was read, so
  \<open>ParseFailed\<close> is never returned below. Then the loop over the data lines:
  \<open>i\<close> is the index of the line among the non-blank lines; a line whose number of
  cells differs from the number of headers is passed over.
\<close>

datatype ingestError = MalformedInput | ParseFailed | ReadFailed

fun dataRows :: "(nat \<Rightarrow> draws) \<Rightarrow> string list \<Rightarrow> nat \<Rightarrow> string list \<Rightarrow> jsobj list" where
  "dataRows rnd headers i [] = []"
| "dataRows rnd headers i (line # rest) =
     (let values = cells line
      in if length values \<noteq> length headers then dataRows rnd headers (Suc i) rest
         else personnelRecord i (rnd i) (rowRecord Map.empty headers values)
              # dataRows rnd headers (Suc i) rest)"

definition nonBlankLines :: "string \<Rightarrow> string list" where
  "nonBlankLines text = filter (\<lambda>line. trim line \<noteq> []) (splitOn (CHR 0x0A) text)"

text \<open>
  \<open>parseCSVData\<close> on what the file reader delivers: \<open>None\<close> when the read fails,
  the text of the file otherwise.
\<close>

definition parseCSVData :: "(nat \<Rightarrow> draws) \<Rightarrow> string option \<Rightarrow> ingestError + jsobj list" where
  "parseCSVData rnd contents =
     (case contents of
        None \<Rightarrow> Inl ReadFailed
      | Some text \<Rightarrow>
          (let lines = nonBlankLines text
           in if length lines < 2 then Inl MalformedInput
              else Inr (dataRows rnd (cells (hd lines)) 1 (tl lines))))"

section \<open>Facts about the normalizer\<close>





lemma dataRows_step:
  "dataRows rnd headers i (line # rest)
   = dataRows rnd headers i [line] @ dataRows rnd headers (Suc i) rest"
  by (simp add: Let_def)



















section \<open>Cells that do not parse as numbers\<close>







section \<open>Cells that parse to zero\<close>




section \<open>Quoted fields\<close>



section \<open>Files without data rows\<close>


lemma header_only_file: "parseCSVData rnd (Some ''id,name,rank'') = Inl MalformedInput"
  by (simp add: parseCSVData_def nonBlankLines_def trim_def isSpace_def)

section \<open>Planning stores\<close>

text \<open>
  The training programs and the missions. Numbers typed into the forms arrive through
  \<open>parseInt\<close>: a whole number, or NaN (\<open>None\<close> below).
\<close>

datatype programStatus = ProgramPlanned | ProgramActive | ProgramCompleted

record TrainingProgram =
  t_id :: string
  t_name :: string
  t_type :: string
  t_duration :: int
  t_capacity :: int
  t_startDate :: string
  t_endDate :: string
  t_instructor :: string
  t_description :: string
  t_prerequisites :: "string list"
  t_targetSkillLevel :: string
  t_enrolledPersonnel :: "string list"
  t_status :: programStatus

definition initialPrograms :: "TrainingProgram list" where
  "initialPrograms =
     [\<lparr>t_id = ''T001'', t_name = ''Advanced Flight Operations'', t_type = ''Technical'',
       t_duration = 14, t_capacity = 20, t_startDate = ''2024-03-01'', t_endDate = ''2024-03-15'',
       t_instructor = ''Wing Commander Sharma'',
       t_description = ''Advanced training in modern flight operations and navigation systems'',
       t_prerequisites = [''Basic Flight Training'', ''Navigation Certification''],
       t_targetSkillLevel = ''Advanced'', t_enrolledPersonnel = [], t_status = ProgramPlanned\<rparr>,
      \<lparr>t_id = ''T002'', t_name = ''Leadership Development Program'', t_type = ''Leadership'',
       t_duration = 21, t_capacity = 15, t_startDate = ''2024-02-20'', t_endDate = ''2024-03-13'',
       t_instructor = ''Group Captain Patel'',
       t_description = ''Comprehensive leadership training for future commanders'',
       t_prerequisites = [''5+ years experience'', ''Supervisory Role''],
       t_targetSkillLevel = ''Expert'', t_enrolledPersonnel = [], t_status = ProgramActive\<rparr>,
      \<lparr>t_id = ''T003'', t_name = ''Cyber Security Fundamentals'', t_type = ''Technical'',
       t_duration = 7, t_capacity = 25, t_startDate = ''2024-03-10'', t_endDate = ''2024-03-17'',
       t_instructor = ''Squadron Leader Kumar'',
       t_description = ''Essential cybersecurity training for all personnel'',
       t_prerequisites = [''Basic Computer Skills''],
       t_targetSkillLevel = ''Intermediate'', t_enrolledPersonnel = [], t_status = ProgramPlanned\<rparr>]"

definition enrollPersonnel :: "string \<Rightarrow> string \<Rightarrow> TrainingProgram list \<Rightarrow> TrainingProgram list" where
  "enrollPersonnel programId personnelId prev =
     map (\<lambda>program.
            if t_id program = programId
               \<and> int (length (t_enrolledPersonnel program)) < t_capacity program
            then program\<lparr>t_enrolledPersonnel := t_enrolledPersonnel program @ [personnelId]\<rparr>
            else program) prev"

definition unenrollPersonnel :: "string \<Rightarrow> string \<Rightarrow> TrainingProgram list \<Rightarrow> TrainingProgram list" where
  "unenrollPersonnel programId personnelId prev =
     map (\<lambda>program.
            if t_id program = programId
            then program\<lparr>t_enrolledPersonnel :=
                   filter (\<lambda>x. x \<noteq> personnelId) (t_enrolledPersonnel program)\<rparr>
            else program) prev"

text \<open>\<open>n || d\<close> for a number of a form: NaN and 0 give the default.\<close>

definition numberOr :: "int option \<Rightarrow> int \<Rightarrow> int" where
  "numberOr n d = (case n of None \<Rightarrow> d | Some k \<Rightarrow> if k = 0 then d else k)"

definition textOr :: "string \<Rightarrow> string \<Rightarrow> string" where
  "textOr s d = (if s = [] then d else s)"

record NewProgram =
  n_name :: string
  n_type :: string
  n_duration :: "int option"
  n_capacity :: "int option"
  n_startDate :: string
  n_instructor :: string
  n_description :: string
  n_targetSkillLevel :: string

text \<open>
  \<open>createTrainingProgram\<close>; the end date, computed in the source by the Date
  object from the start date and the duration, is passed in.
\<close>

definition createTrainingProgram ::
  "string \<Rightarrow> NewProgram \<Rightarrow> TrainingProgram list \<Rightarrow> TrainingProgram list" where
  "createTrainingProgram endDate newProgram trainingPrograms =
     (if n_name newProgram = [] \<or> n_type newProgram = [] \<or> n_startDate newProgram = []
      then trainingPrograms
      else trainingPrograms @
        [\<lparr>t_id = ''T'' @ padStart 3 (CHR ''0'') (showNat (length trainingPrograms + 1)),
          t_name = n_name newProgram, t_type = n_type newProgram,
          t_duration = numberOr (n_duration newProgram) 7,
          t_capacity = numberOr (n_capacity newProgram) 20,
          t_startDate = n_startDate newProgram, t_endDate = endDate,
          t_instructor = textOr (n_instructor newProgram) ''TBD'',
          t_description = textOr (n_description newProgram) [],
          t_prerequisites = [],
          t_targetSkillLevel = textOr (n_targetSkillLevel newProgram) ''Intermediate'',
          t_enrolledPersonnel = [], t_status = ProgramPlanned\<rparr>])"

inductive reachablePrograms :: "TrainingProgram list \<Rightarrow> bool" where
  initial: "reachablePrograms initialPrograms"
| enroll: "reachablePrograms s \<Longrightarrow> reachablePrograms (enrollPersonnel programId personnelId s)"
| unenroll: "reachablePrograms s \<Longrightarrow> reachablePrograms (unenrollPersonnel programId personnelId s)"
| create: "reachablePrograms s \<Longrightarrow> reachablePrograms (createTrainingProgram endDate newProgram s)"

datatype priority = PriorityHigh | PriorityMedium | PriorityLow

datatype missionStatus = MissionPlanning | MissionActive | MissionCompleted

record Mission =
  m_id :: string
  m_name :: string
  m_type :: string
  m_priority :: priority
  m_startDate :: string
  m_duration :: int
  m_requiredPersonnel :: int
  m_requiredSpecializations :: "string list"
  m_status :: missionStatus
  m_assignedPersonnel :: "string list"
  m_location :: string
  m_description :: string

definition initialMissions :: "Mission list" where
  "initialMissions =
     [\<lparr>m_id = ''M001'', m_name = ''Operation Thunder Strike'', m_type = ''Combat'',
       m_priority = PriorityHigh, m_startDate = ''2024-02-15'', m_duration = 90,
       m_requiredPersonnel = 25,
       m_requiredSpecializations = [''Pilot'', ''Engineer'', ''Communications''],
       m_status = MissionPlanning, m_assignedPersonnel = [], m_location = ''Northern Sector'',
       m_description = ''Strategic air operations in northern territory''\<rparr>,
      \<lparr>m_id = ''M002'', m_name = ''Humanitarian Relief Alpha'', m_type = ''Humanitarian'',
       m_priority = PriorityMedium, m_startDate = ''2024-03-01'', m_duration = 45,
       m_requiredPersonnel = 15,
       m_requiredSpecializations = [''Logistics'', ''Medical'', ''Transport''],
       m_status = MissionPlanning, m_assignedPersonnel = [], m_location = ''Eastern Region'',
       m_description = ''Disaster relief and humanitarian assistance operations''\<rparr>]"

definition assignPersonnelToMission :: "string \<Rightarrow> string \<Rightarrow> Mission list \<Rightarrow> Mission list" where
  "assignPersonnelToMission missionId personnelId prev =
     map (\<lambda>mission.
            if m_id mission = missionId
            then mission\<lparr>m_assignedPersonnel := m_assignedPersonnel mission @ [personnelId]\<rparr>
            else mission) prev"

definition removePersonnelFromMission :: "string \<Rightarrow> string \<Rightarrow> Mission list \<Rightarrow> Mission list" where
  "removePersonnelFromMission missionId personnelId prev =
     map (\<lambda>mission.
            if m_id mission = missionId
            then mission\<lparr>m_assignedPersonnel :=
                   filter (\<lambda>x. x \<noteq> personnelId) (m_assignedPersonnel mission)\<rparr>
            else mission) prev"

record NewMission =
  nm_name :: string
  nm_type :: string
  nm_priority :: priority
  nm_startDate :: string
  nm_duration :: "int option"
  nm_requiredPersonnel :: "int option"
  nm_requiredSpecializations :: "string list"
  nm_location :: string
  nm_description :: string

definition createMission :: "NewMission \<Rightarrow> Mission list \<Rightarrow> Mission list" where
  "createMission newMission missions =
     (if nm_name newMission = [] \<or> nm_type newMission = [] \<or> nm_startDate newMission = []
      then missions
      else missions @
        [\<lparr>m_id = ''M'' @ padStart 3 (CHR ''0'') (showNat (length missions + 1)),
          m_name = nm_name newMission, m_type = nm_type newMission,
          m_priority = nm_priority newMission, m_startDate = nm_startDate newMission,
          m_duration = numberOr (nm_duration newMission) 30,
          m_requiredPersonnel = numberOr (nm_requiredPersonnel newMission) 10,
          m_requiredSpecializations = nm_requiredSpecializations newMission,
          m_status = MissionPlanning, m_assignedPersonnel = [],
          m_location = textOr (nm_location newMission) [],
          m_description = textOr (nm_description newMission) []\<rparr>])"

text \<open>The properties of the claim, as predicates on a store.\<close>

definition atCapacity :: "string \<Rightarrow> TrainingProgram list \<Rightarrow> bool" where
  "atCapacity programId s =
     list_all (\<lambda>p. t_id p \<noteq> programId \<or> t_capacity p \<le> int (length (t_enrolledPersonnel p))) s"

definition withinCapacity :: "TrainingProgram list \<Rightarrow> bool" where
  "withinCapacity s =
     list_all (\<lambda>p. int (length (t_enrolledPersonnel p)) \<le> max 0 (t_capacity p)) s"

lemma enroll_at_capacity: "atCapacity programId s \<Longrightarrow> enrollPersonnel programId x s = s"
  by (induction s) (auto simp: atCapacity_def enrollPersonnel_def)

lemma enroll_within: "withinCapacity s \<Longrightarrow> withinCapacity (enrollPersonnel programId x s)"
  by (induction s) (auto simp: withinCapacity_def enrollPersonnel_def)

lemma filter_within:
  "int (length xs) \<le> max 0 c \<Longrightarrow> int (length (filter P xs)) \<le> max 0 c"
  using length_filter_le [of P xs] by linarith

lemma unenroll_within: "withinCapacity s \<Longrightarrow> withinCapacity (unenrollPersonnel programId x s)"
  by (induction s) (auto simp: withinCapacity_def unenrollPersonnel_def intro: filter_within)

lemma create_within: "withinCapacity s \<Longrightarrow> withinCapacity (createTrainingProgram e n s)"
  by (simp add: withinCapacity_def createTrainingProgram_def)

lemma reachable_within: "reachablePrograms s \<Longrightarrow> withinCapacity s"
proof (induction rule: reachablePrograms.induct)
  case initial
  show ?case by (simp add: withinCapacity_def initialPrograms_def)
qed (simp_all add: enroll_within unenroll_within create_within)

lemma enroll_changes:
  "map t_enrolledPersonnel (enrollPersonnel programId x s)
   = map (\<lambda>p. if t_id p = programId \<and> int (length (t_enrolledPersonnel p)) < t_capacity p
               then t_enrolledPersonnel p @ [x] else t_enrolledPersonnel p) s"
  by (simp add: enrollPersonnel_def)

lemma assign_changes:
  "map m_assignedPersonnel (assignPersonnelToMission missionId x s)
   = map (\<lambda>m. if m_id m = missionId then m_assignedPersonnel m @ [x] else m_assignedPersonnel m) s"
  by (simp add: assignPersonnelToMission_def)

definition smallProgram :: NewProgram where
  "smallProgram = \<lparr>n_name = ''Survival Course'', n_type = ''Physical'', n_duration = Some 7,
     n_capacity = Some 1, n_startDate = ''2024-05-01'', n_instructor = [], n_description = [],
     n_targetSkillLevel = ''Intermediate''\<rparr>"

definition fullPrograms :: "TrainingProgram list" where
  "fullPrograms =
     enrollPersonnel ''T004'' ''IAF0001'' (createTrainingProgram ''2024-05-08'' smallProgram initialPrograms)"

definition smallMission :: NewMission where
  "smallMission = \<lparr>nm_name = ''Recon Bravo'', nm_type = ''Reconnaissance'',
     nm_priority = PriorityMedium, nm_startDate = ''2024-05-01'', nm_duration = Some 30,
     nm_requiredPersonnel = Some 1, nm_requiredSpecializations = [], nm_location = [],
     nm_description = []\<rparr>"

definition staffedMissions :: "Mission list" where
  "staffedMissions = assignPersonnelToMission ''M003'' ''IAF0001'' (createMission smallMission initialMissions)"

lemmas store_eval = fullPrograms_def smallProgram_def initialPrograms_def createTrainingProgram_def
  enrollPersonnel_def numberOr_def textOr_def padStart_def staffedMissions_def smallMission_def
  initialMissions_def createMission_def assignPersonnelToMission_def

section \<open>Enrolment and capacity\<close>

text \<open>
  C5, as stated, in the mission store: a mission created with one required person and
  already holding one is given a second by \<open>assignPersonnelToMission\<close>; its roster
  of two exceeds the required number, and the store has changed.
\<close>

theorem mission_over_capacity_counterexample:
  "map (\<lambda>m. (m_id m, m_requiredPersonnel m, m_assignedPersonnel m)) staffedMissions
     = [(''M001'', 25, []), (''M002'', 15, []), (''M003'', 1, [''IAF0001''])]
   \<and> map (\<lambda>m. (m_id m, m_requiredPersonnel m, m_assignedPersonnel m))
        (assignPersonnelToMission ''M003'' ''IAF0002'' staffedMissions)
     = [(''M001'', 25, []), (''M002'', 15, []), (''M003'', 1, [''IAF0001'', ''IAF0002''])]"
  by (simp add: store_eval showNat.simps eval_nat_numeral)

text \<open>
  C5, amended. In the training-program store, \<open>enrollPersonnel\<close> appends the
  personnel ID to the programs of the given ID whose roster is strictly smaller than
  their capacity and to no other; when every program of that ID is at or over capacity
  the store is returned unchanged. Starting from the three initial programs, no
  sequence of enrolments, removals and program creations reaches a roster larger than
  its capacity (a roster of a program created with a negative capacity stays empty). In
  the mission store, \<open>assignPersonnelToMission\<close> appends to the missions of the given
  ID whatever their roster size.
\<close>

theorem enroll_capacity_guard:
  "(atCapacity programId s \<longrightarrow> enrollPersonnel programId x s = s)
   \<and> map t_enrolledPersonnel (enrollPersonnel programId x s)
       = map (\<lambda>p. if t_id p = programId \<and> int (length (t_enrolledPersonnel p)) < t_capacity p
                   then t_enrolledPersonnel p @ [x] else t_enrolledPersonnel p) s
   \<and> (reachablePrograms s \<longrightarrow> withinCapacity s)
   \<and> map m_assignedPersonnel (assignPersonnelToMission missionId x ms)
       = map (\<lambda>m. if m_id m = missionId then m_assignedPersonnel m @ [x]
                   else m_assignedPersonnel m) ms"
  by (simp add: enroll_at_capacity enroll_changes reachable_within assign_changes)

text \<open>A program of capacity one, created and filled from the initial store.\<close>

theorem enroll_capacity_guard_witness:
  "atCapacity ''T004'' fullPrograms \<and> reachablePrograms fullPrograms
   \<and> enrollPersonnel ''T004'' ''IAF0002'' fullPrograms = fullPrograms
   \<and> withinCapacity fullPrograms
   \<and> map (\<lambda>p. (t_id p, t_capacity p, t_enrolledPersonnel p)) fullPrograms
       = [(''T001'', 20, []), (''T002'', 15, []), (''T003'', 25, []), (''T004'', 1, [''IAF0001''])]"
proof -
  have a: "atCapacity ''T004'' fullPrograms"
    by (simp add: atCapacity_def store_eval showNat.simps eval_nat_numeral)
  have r: "reachablePrograms fullPrograms"
    unfolding fullPrograms_def by (intro reachablePrograms.intros)
  have v: "map (\<lambda>p. (t_id p, t_capacity p, t_enrolledPersonnel p)) fullPrograms
       = [(''T001'', 20, []), (''T002'', 15, []), (''T003'', 25, []), (''T004'', 1, [''IAF0001''])]"
    by (simp add: store_eval showNat.simps eval_nat_numeral)
  from enroll_capacity_guard [of "''T004''" fullPrograms "''IAF0002''"] a r v show ?thesis
    by simp
qed

section \<open>Suitable personnel\<close>

text \<open>
  \<open>xs.sort(cmp)\<close> with a comparator returning a number: a stable sort. Each element
  is put before the first already placed element that the comparator ranks after it.
\<close>

fun insertBy :: "('a \<Rightarrow> 'a \<Rightarrow> real) \<Rightarrow> 'a \<Rightarrow> 'a list \<Rightarrow> 'a list" where
  "insertBy cmp x [] = [x]"
| "insertBy cmp x (y # ys) = (if cmp x y < 0 then x # y # ys else y # insertBy cmp x ys)"

definition sortBy :: "('a \<Rightarrow> 'a \<Rightarrow> real) \<Rightarrow> 'a list \<Rightarrow> 'a list" where
  "sortBy cmp xs = foldl (\<lambda>acc x. insertBy cmp x acc) [] xs"

text \<open>\<open>s.split(' ')[0]\<close>\<close>

definition firstWord :: "string \<Rightarrow> string" where
  "firstWord s = (case splitOn (CHR '' '') s of [] \<Rightarrow> [] | w # ws \<Rightarrow> w)"

text \<open>
  \<open>getSuitablePersonnel\<close> of the training component. The search term and the
  specialization filter are state of the component.
\<close>

definition isRecommended ::
  "(string \<Rightarrow> int option) \<Rightarrow> int \<Rightarrow> ('a TrainingProgram_scheme) \<Rightarrow> PersonnelData \<Rightarrow> bool" where
  "isRecommended dateParse now program person =
     list_ex (\<lambda>rec.
         includesStr (toLowerCase rec) (firstWord (toLowerCase (t_name program)))
         \<or> includesStr (toLowerCase (t_name program)) (firstWord (toLowerCase rec)))
       (generateTrainingRecommendations dateParse now person)"

definition suitableForProgram ::
  "(string \<Rightarrow> int option) \<Rightarrow> int \<Rightarrow> string \<Rightarrow> string \<Rightarrow> TrainingProgram \<Rightarrow> PersonnelData \<Rightarrow> bool" where
  "suitableForProgram dateParse now searchTerm filterSpecialization program person =
     (if p_id person \<in> set (t_enrolledPersonnel program) then False
      else if lowerOpt (p_medicalStatus person) \<noteq> Some ''fit'' then False
      else
        (let searchMatch =
               (searchTerm = []
                \<or> includesStr (toLowerCase (p_name person)) (toLowerCase searchTerm)
                \<or> includesStr (toLowerCase (p_specialization person)) (toLowerCase searchTerm));
             specMatch =
               (filterSpecialization = ''all'' \<or> p_specialization person = filterSpecialization)
         in searchMatch \<and> specMatch
            \<and> (isRecommended dateParse now program person \<or> p_trainingScore person < 80)))"

definition getSuitablePersonnel_training ::
  "(string \<Rightarrow> int option) \<Rightarrow> int \<Rightarrow> string \<Rightarrow> string \<Rightarrow> PersonnelData list
   \<Rightarrow> TrainingProgram \<Rightarrow> PersonnelData list" where
  "getSuitablePersonnel_training dateParse now searchTerm filterSpecialization data program =
     sortBy (\<lambda>a b. p_trainingScore a - p_trainingScore b)
       (filter (suitableForProgram dateParse now searchTerm filterSpecialization program) data)"

text \<open>The mission component: every person with the three computed properties.\<close>

datatype availability = Available | Deployed | InTraining | Medical

record PersonnelWithReadiness = PersonnelData +
  readinessScore :: int
  availabilityStatus :: availability
  lastDeploymentDays :: "int option"

definition getAvailabilityStatus :: "Mission list \<Rightarrow> PersonnelData \<Rightarrow> availability" where
  "getAvailabilityStatus missions person =
     (if lowerOpt (p_medicalStatus person) \<noteq> Some ''fit'' then Medical
      else if lowerOpt (p_missionReadiness person) = Some ''training'' then InTraining
      else
        (let isDeployed =
               list_ex (\<lambda>mission. m_status mission = MissionActive
                                   \<and> p_id person \<in> set (m_assignedPersonnel mission)) missions
         in if isDeployed then Deployed else Available))"

definition personnelWithReadiness ::
  "(string \<Rightarrow> int option) \<Rightarrow> int \<Rightarrow> Mission list \<Rightarrow> PersonnelData list
   \<Rightarrow> PersonnelWithReadiness list" where
  "personnelWithReadiness dateParse now missions data =
     map (\<lambda>person.
            PersonnelData.extend person
              (PersonnelWithReadiness.fields
                 (calculateReadinessScore person)
                 (getAvailabilityStatus missions person)
                 (daysSinceDeployment dateParse now person))) data"

definition suitableForMission ::
  "string \<Rightarrow> string \<Rightarrow> Mission \<Rightarrow> PersonnelWithReadiness \<Rightarrow> bool" where
  "suitableForMission searchTerm filterSpecialization mission person =
     (let matchesSpecialization =
            (length (m_requiredSpecializations mission) = 0
             \<or> p_specialization person \<in> set (m_requiredSpecializations mission));
          isAvailable = (availabilityStatus person = Available);
          hasMinReadiness = (readinessScore person \<ge> 70);
          searchMatch =
            (searchTerm = []
             \<or> includesStr (toLowerCase (p_name person)) (toLowerCase searchTerm)
             \<or> includesStr (toLowerCase (p_specialization person)) (toLowerCase searchTerm));
          specFilter =
            (filterSpecialization = ''all'' \<or> p_specialization person = filterSpecialization)
      in matchesSpecialization \<and> isAvailable \<and> hasMinReadiness \<and> searchMatch \<and> specFilter)"

definition getSuitablePersonnel_mission ::
  "(string \<Rightarrow> int option) \<Rightarrow> int \<Rightarrow> Mission list \<Rightarrow> string \<Rightarrow> string \<Rightarrow> PersonnelData list
   \<Rightarrow> Mission \<Rightarrow> PersonnelWithReadiness list" where
  "getSuitablePersonnel_mission dateParse now missions searchTerm filterSpecialization data mission =
     sortBy (\<lambda>a b. real_of_int (readinessScore b) - real_of_int (readinessScore a))
       (filter (suitableForMission searchTerm filterSpecialization mission)
          (personnelWithReadiness dateParse now missions data))"

section \<open>Facts about the comparator sort\<close>

lemma set_insertBy: "set (insertBy cmp x ys) = insert x (set ys)"
  by (induction ys) auto

lemma length_insertBy: "length (insertBy cmp x ys) = Suc (length ys)"
  by (induction ys) auto

lemma sorted_insertBy:
  fixes f :: "'a \<Rightarrow> real"
  assumes "\<And>a b. cmp a b = f a - f b" and "sorted (map f ys)"
  shows "sorted (map f (insertBy cmp x ys))"
  using assms(2) by (induction ys) (auto simp: assms(1) set_insertBy)

lemma foldl_insertBy:
  fixes f :: "'a \<Rightarrow> real"
  assumes "\<And>a b. cmp a b = f a - f b" and "sorted (map f acc)"
  shows "sorted (map f (foldl (\<lambda>acc x. insertBy cmp x acc) acc xs))
         \<and> set (foldl (\<lambda>acc x. insertBy cmp x acc) acc xs) = set acc \<union> set xs
         \<and> length (foldl (\<lambda>acc x. insertBy cmp x acc) acc xs) = length acc + length xs"
  using assms(2)
proof (induction xs arbitrary: acc)
  case Nil
  then show ?case by simp
next
  case (Cons x xs)
  have "sorted (map f (insertBy cmp x acc))"
    using assms(1) Cons.prems by (rule sorted_insertBy)
  from Cons.IH [OF this] show ?case
    by (simp add: set_insertBy length_insertBy)
qed

lemma sortBy_key:
  fixes f :: "'a \<Rightarrow> real"
  assumes "\<And>a b. cmp a b = f a - f b"
  shows "sorted (map f (sortBy cmp xs))" and "set (sortBy cmp xs) = set xs"
    and "length (sortBy cmp xs) = length xs"
  using foldl_insertBy [of cmp f "[]" xs, OF assms] by (simp_all add: sortBy_def)

section \<open>Sort directions\<close>

text \<open>
  C6. For every record collection, program and mission, the candidate list for a
  training program is in ascending order of training score, and the candidate list for
  a mission is in descending order of readiness score. Each list holds exactly the
  records that pass the filter of its component.
\<close>

theorem suitable_personnel_sort_directions:
  "sorted_wrt (\<lambda>a b. p_trainingScore a \<le> p_trainingScore b)
     (getSuitablePersonnel_training dateParse now searchTerm filterSpecialization data program)
   \<and> sorted_wrt (\<lambda>a b. readinessScore a \<ge> readinessScore b)
       (getSuitablePersonnel_mission dateParse now missions searchTerm filterSpecialization data mission)
   \<and> set (getSuitablePersonnel_training dateParse now searchTerm filterSpecialization data program)
       = set (filter (suitableForProgram dateParse now searchTerm filterSpecialization program) data)
   \<and> set (getSuitablePersonnel_mission dateParse now missions searchTerm filterSpecialization data mission)
       = set (filter (suitableForMission searchTerm filterSpecialization mission)
                (personnelWithReadiness dateParse now missions data))"
proof -
  let ?up = "\<lambda>a b :: PersonnelData. p_trainingScore a - p_trainingScore b"
  let ?down = "\<lambda>a b :: PersonnelWithReadiness.
                 real_of_int (readinessScore b) - real_of_int (readinessScore a)"
  have up: "sorted (map p_trainingScore (sortBy ?up xs))" for xs
    by (rule sortBy_key(1)) simp
  have down: "sorted (map (\<lambda>p. - real_of_int (readinessScore p)) (sortBy ?down xs))" for xs
    by (rule sortBy_key(1)) simp
  have "set (sortBy ?up xs) = set xs" for xs
    by (rule sortBy_key(2) [of _ p_trainingScore]) simp
  moreover have "set (sortBy ?down xs) = set xs" for xs
    by (rule sortBy_key(2) [of _ "\<lambda>p. - real_of_int (readinessScore p)"]) simp
  ultimately show ?thesis
    using up down
    by (simp add: getSuitablePersonnel_training_def getSuitablePersonnel_mission_def sorted_map)
qed

text \<open>Three pilots, and both rankings computed on them.\<close>

definition pilots :: "PersonnelData list" where
  "pilots =
     [halfYears\<lparr>p_id := ''IAF0001'', p_name := ''Asha'', p_trainingScore := 75\<rparr>,
      halfYears\<lparr>p_id := ''IAF0002'', p_name := ''Vikram'', p_trainingScore := 60\<rparr>,
      halfYears\<lparr>p_id := ''IAF0003'', p_name := ''Meera'', p_trainingScore := 90\<rparr>]"

lemmas suit_eval = getSuitablePersonnel_training_def getSuitablePersonnel_mission_def sortBy_def
  suitableForProgram_def suitableForMission_def personnelWithReadiness_def pilots_def halfYears_def
  lowerOpt_def toLowerCase_def lowerChar_def isUpper_def isRecommended_def
  generateTrainingRecommendations_def overdue_def daysSinceDeployment_def isoDates_def
  march2024_def initialPrograms_def initialMissions_def getAvailabilityStatus_def
  calculateReadinessScore_def medicalPoints_def skillPoints_def Math_round_def Let_def
  PersonnelData.extend_def PersonnelWithReadiness.fields_def

lemma suitable_personnel_example:
  "map p_name (getSuitablePersonnel_training isoDates march2024 [] ''all'' pilots (hd initialPrograms))
     = [''Vikram'', ''Asha'']
   \<and> map (\<lambda>p. (p_name p, readinessScore p))
        (getSuitablePersonnel_mission isoDates march2024 initialMissions [] ''all'' pilots (hd initialMissions))
     = [(''Meera'', 88), (''Asha'', 83), (''Vikram'', 79)]"
  by (simp add: suit_eval firstWord_def)

section \<open>Analytics aggregator\<close>




















section \<open>Facts about counting and rounding\<close>






















section \<open>Percentages of a distribution\<close>






end
